theory Spec2Isabelle
  imports Complex_Main
begin

section \<open>Python values, errors and the imaging library\<close>

text \<open>
  The two generators \<^verbatim>\<open>generate_figures.py\<close> (angle-based) and
  \<^verbatim>\<open>generate_figures_simple.py\<close> (straight-line) compute with Python numbers
  (\<^verbatim>\<open>int\<close> parameters, \<^verbatim>\<open>float\<close> results of \<^verbatim>\<open>math.sqrt\<close>,
  \<^verbatim>\<open>math.sin\<close>, \<^verbatim>\<open>math.cos\<close> and \<^verbatim>\<open>/\<close>). Numbers are modelled as
  \<^typ>\<open>real\<close>: rounding, overflow and NaN of IEEE doubles are not part of the model.
  What Python raises is a value: \<^verbatim>\<open>math.sqrt\<close> of a negative number is a
  \<^verbatim>\<open>ValueError\<close>, \<^verbatim>\<open>x / 0\<close> a \<^verbatim>\<open>ZeroDivisionError\<close>, an index out of
  range an \<^verbatim>\<open>IndexError\<close>.
\<close>

datatype pyerror = ZeroDivisionError | ValueError | IndexError

type_synonym point = "real \<times> real"

definition math_sqrt :: "real \<Rightarrow> pyerror + real" where
  "math_sqrt x = (if x < 0 then Inl ValueError else Inr (sqrt x))"

definition truediv :: "real \<Rightarrow> real \<Rightarrow> pyerror + real" where
  "truediv x y = (if y = 0 then Inl ZeroDivisionError else Inr (x / y))"

definition math_radians :: "real \<Rightarrow> real" where
  "math_radians x = x * pi / 180"

definition getitem :: "'a list \<Rightarrow> nat \<Rightarrow> pyerror + 'a" where
  "getitem xs i = (if i < length xs then Inr (xs ! i) else Inl IndexError)"

text \<open>
  Pillow is not part of the repository. An image is its mode, its size and a symbolic
  record of the library calls that produced its pixels, in the order they were made;
  each library call is a total constructor of that record.
\<close>

datatype mode = RGB | RGBA | L

datatype color = ColorName string | ColorTuple int int int int

datatype resample = LANCZOS

datatype draw_op =
    Polygon "point list" color
  | Ellipse point point color

datatype pixels =
    New color
  | Drawn pixels draw_op
  | Resized pixels "int \<times> int" resample
  | Band pixels nat
  | Pasted pixels pixels "pixels option"

record image =
  im_mode :: mode
  im_size :: "int \<times> int"
  im_pixels :: pixels

text \<open>\<^verbatim>\<open>Image.new(mode, size, color)\<close>\<close>

definition Image_new :: "mode \<Rightarrow> int \<times> int \<Rightarrow> color \<Rightarrow> image" where
  "Image_new m sz c = \<lparr>im_mode = m, im_size = sz, im_pixels = New c\<rparr>"

text \<open>
  \<^verbatim>\<open>draw = ImageDraw.Draw(img, 'RGBA')\<close> is a handle on \<^verbatim>\<open>img\<close>: what is drawn
  through it changes \<^verbatim>\<open>img\<close>. The handle is modelled as the image it draws on, passed
  in and returned updated. \<^verbatim>\<open>draw.polygon(points, fill=color)\<close> and
  \<^verbatim>\<open>draw.ellipse([left_up, right_down], fill=color)\<close>:
\<close>

definition polygon :: "image \<Rightarrow> point list \<Rightarrow> color \<Rightarrow> image" where
  "polygon draw pts fill = draw\<lparr>im_pixels := Drawn (im_pixels draw) (Polygon pts fill)\<rparr>"

definition ellipse :: "image \<Rightarrow> point \<Rightarrow> point \<Rightarrow> color \<Rightarrow> image" where
  "ellipse draw left_up right_down fill =
     draw\<lparr>im_pixels := Drawn (im_pixels draw) (Ellipse left_up right_down fill)\<rparr>"

text \<open>\<^verbatim>\<open>img.resize(size, filter)\<close>, \<^verbatim>\<open>img.split()\<close> and
  \<^verbatim>\<open>dst.paste(src, mask=mask)\<close>\<close>

definition resize :: "image \<Rightarrow> int \<times> int \<Rightarrow> resample \<Rightarrow> image" where
  "resize img sz flt =
     \<lparr>im_mode = im_mode img, im_size = sz, im_pixels = Resized (im_pixels img) sz flt\<rparr>"

fun bands :: "mode \<Rightarrow> nat" where
  "bands RGB = 3"
| "bands RGBA = 4"
| "bands L = 1"

definition split :: "image \<Rightarrow> image list" where
  "split img =
     map (\<lambda>k. \<lparr>im_mode = L, im_size = im_size img, im_pixels = Band (im_pixels img) k\<rparr>)
       [0 ..< bands (im_mode img)]"

definition paste :: "image \<Rightarrow> image \<Rightarrow> image option \<Rightarrow> image" where
  "paste dst src msk =
     dst\<lparr>im_pixels := Pasted (im_pixels dst) (im_pixels src) (map_option im_pixels msk)\<rparr>"

text \<open>The draw calls made on an image since it was created, oldest first.\<close>

fun draw_log :: "pixels \<Rightarrow> draw_op list" where
  "draw_log (Drawn p d) = draw_log p @ [d]"
| "draw_log (New c) = []"
| "draw_log (Resized p sz flt) = []"
| "draw_log (Band p k) = []"
| "draw_log (Pasted p q m) = []"

section \<open>Module constants\<close>

definition CANVAS_WIDTH :: int where
  "CANVAS_WIDTH = 300"

definition CANVAS_HEIGHT :: int where
  "CANVAS_HEIGHT = 500"

definition SCALE_FACTOR :: int where
  "SCALE_FACTOR = 10"

section \<open>The segment rasterizer\<close>

text \<open>
  \<^verbatim>\<open>draw_antialiased_line(draw, x1, y1, x2, y2, width, color)\<close>, the same text in both
  generators (\<^verbatim>\<open>generate_figures.py\<close> lines 47-71, \<^verbatim>\<open>generate_figures_simple.py\<close>
  lines 32-56). The local \<^verbatim>\<open>length\<close> is \<open>len\<close> here; \<^verbatim>\<open>dx /= length\<close> rebinds
  \<^verbatim>\<open>dx\<close>, written \<open>ux\<close>.
\<close>

definition draw_antialiased_line ::
  "image \<Rightarrow> real \<Rightarrow> real \<Rightarrow> real \<Rightarrow> real \<Rightarrow> real \<Rightarrow> color \<Rightarrow> pyerror + image" where
  "draw_antialiased_line draw x1 y1 x2 y2 width color =
     (let dx = x2 - x1;
          dy = y2 - y1
      in case math_sqrt (dx * dx + dy * dy) of
           Inl err \<Rightarrow> Inl err
         | Inr len \<Rightarrow>
             if len = 0 then Inr draw
             else
               (case truediv dx len of
                  Inl err \<Rightarrow> Inl err
                | Inr ux \<Rightarrow>
                    (case truediv dy len of
                       Inl err \<Rightarrow> Inl err
                     | Inr uy \<Rightarrow>
                         let px = - uy * width / 2;
                             py = ux * width / 2;
                             points = [(x1 + px, y1 + py),
                                       (x1 - px, y1 - py),
                                       (x2 - px, y2 - py),
                                       (x2 + px, y2 + py)]
                         in Inr (polygon draw points color))))"

text \<open>
  \<^verbatim>\<open>for i in range(len(points) - 1): draw_antialiased_line(draw, points[i][0],
  points[i][1], points[i+1][0], points[i+1][1], stroke_scaled, color)\<close>: the loop over the
  consecutive pairs of the path. An exception leaves the loop.
\<close>

fun draw_lines :: "image \<Rightarrow> point list \<Rightarrow> real \<Rightarrow> color \<Rightarrow> pyerror + image" where
  "draw_lines draw (p # q # ps) width color =
     (case draw_antialiased_line draw (fst p) (snd p) (fst q) (snd q) width color of
        Inl err \<Rightarrow> Inl err
      | Inr draw' \<Rightarrow> draw_lines draw' (q # ps) width color)"
| "draw_lines draw ps width color = Inr draw"

text \<open>
  \<^verbatim>\<open>for point in points: left_up = (point[0] - stroke_scaled/2, point[1] -
  stroke_scaled/2); right_down = (point[0] + stroke_scaled/2, point[1] + stroke_scaled/2);
  draw.ellipse([left_up, right_down], fill=color)\<close>
\<close>

fun draw_joints :: "image \<Rightarrow> point list \<Rightarrow> real \<Rightarrow> color \<Rightarrow> image" where
  "draw_joints draw [] stroke_scaled color = draw"
| "draw_joints draw (point # ps) stroke_scaled color =
     (let left_up = (fst point - stroke_scaled / 2, snd point - stroke_scaled / 2);
          right_down = (fst point + stroke_scaled / 2, snd point + stroke_scaled / 2)
      in draw_joints (ellipse draw left_up right_down color) ps stroke_scaled color)"

section \<open>The geometry builders\<close>

text \<open>
  The two paths of a figure, as \<^verbatim>\<open>generate_figure\<close> builds them before it draws:
  the list \<^verbatim>\<open>points\<close> of the main path, the three points \<^verbatim>\<open>point_a\<close>,
  \<^verbatim>\<open>point_b\<close>, \<^verbatim>\<open>point_c\<close> of the additional strokes and the list
  \<^verbatim>\<open>additional_points\<close> they are appended to. All coordinates are already multiplied
  by \<^verbatim>\<open>SCALE_FACTOR\<close>.
\<close>

record paths =
  points :: "point list"
  point_a :: point
  point_b :: point
  point_c :: point
  additional_points :: "point list"

text \<open>\<^verbatim>\<open>calculate_point_from_angle\<close>, \<^verbatim>\<open>generate_figures.py\<close> lines 33-45.\<close>

definition calculate_point_from_angle :: "real \<Rightarrow> real \<Rightarrow> real \<Rightarrow> real \<Rightarrow> point" where
  "calculate_point_from_angle start_x start_y angle_degrees distance =
     (let angle_rad = math_radians angle_degrees;
          end_x = start_x + distance * sin angle_rad;
          end_y = start_y + distance * cos angle_rad
      in (end_x, end_y))"

text \<open>
  The angle-based builder: \<^verbatim>\<open>generate_figure(a, b, g, c, y, d, e, f, h, stroke_width)\<close>
  of \<^verbatim>\<open>generate_figures.py\<close>, lines 95-155.
\<close>

definition figure_paths ::
  "real \<Rightarrow> real \<Rightarrow> real \<Rightarrow> real \<Rightarrow> real \<Rightarrow> real \<Rightarrow> real \<Rightarrow> real \<Rightarrow> real \<Rightarrow> pyerror + paths" where
  "figure_paths a b g c y d e f h =
     (let x_center = of_int (150 * SCALE_FACTOR);
          a_scaled = a * of_int SCALE_FACTOR;
          b_scaled = b * of_int SCALE_FACTOR;
          c_scaled = c * of_int SCALE_FACTOR;
          d_scaled = d * of_int SCALE_FACTOR;
          e_scaled = e * of_int SCALE_FACTOR;
          f_scaled = f * of_int SCALE_FACTOR;
          h_scaled = h * of_int SCALE_FACTOR
      in case math_sqrt (d_scaled ^ 2 + b_scaled ^ 2) of
           Inl err \<Rightarrow> Inl err
         | Inr q \<Rightarrow>
             let end1 = calculate_point_from_angle x_center a_scaled g q;
                 end_x = fst end1;
                 end_y = snd end1;
                 end2 = calculate_point_from_angle (x_center - d_scaled)
                          (a_scaled + b_scaled + c_scaled) (- y) d_scaled;
                 end_x2 = fst end2;
                 end_y2 = snd end2;
                 pa = (x_center - e_scaled, a_scaled);
                 pb = (x_center - e_scaled - f_scaled, a_scaled);
                 pc = (x_center - e_scaled, a_scaled + h_scaled)
             in Inr \<lparr>points =
                       [(x_center, 0),
                        (x_center, a_scaled),
                        (end_x, end_y),
                        (x_center, end_y),
                        (x_center, a_scaled + b_scaled + c_scaled),
                        (x_center - d_scaled, a_scaled + b_scaled + c_scaled),
                        (end_x2, end_y2),
                        (end_x2, of_int (CANVAS_HEIGHT * SCALE_FACTOR))],
                     point_a = pa, point_b = pb, point_c = pc,
                     additional_points = [pa, pb, pc]\<rparr>)"

text \<open>
  The straight-line builder:
  \<^verbatim>\<open>generate_figure(a, b, c, d, e, f, g, stroke_width, stroke_color)\<close> of
  \<^verbatim>\<open>generate_figures_simple.py\<close>, lines 79-128. It calls nothing that can raise.
\<close>

definition figure_paths_simple ::
  "real \<Rightarrow> real \<Rightarrow> real \<Rightarrow> real \<Rightarrow> real \<Rightarrow> real \<Rightarrow> real \<Rightarrow> paths" where
  "figure_paths_simple a b c d e f g =
     (let x_center = of_int (150 * SCALE_FACTOR);
          a_scaled = a * of_int SCALE_FACTOR;
          b_scaled = b * of_int SCALE_FACTOR;
          c_scaled = c * of_int SCALE_FACTOR;
          d_scaled = d * of_int SCALE_FACTOR;
          e_scaled = e * of_int SCALE_FACTOR;
          f_scaled = f * of_int SCALE_FACTOR;
          g_scaled = g * of_int SCALE_FACTOR;
          pa = (x_center - e_scaled, a_scaled);
          pb = (x_center - e_scaled - f_scaled, a_scaled);
          pc = (x_center - e_scaled, a_scaled + g_scaled)
      in \<lparr>points =
            [(x_center, 0),
             (x_center, a_scaled),
             (x_center + c_scaled, a_scaled + b_scaled),
             (x_center, a_scaled + b_scaled),
             (x_center, a_scaled + b_scaled + c_scaled),
             (x_center - d_scaled, a_scaled + b_scaled + c_scaled),
             (x_center, a_scaled + b_scaled + c_scaled + d_scaled),
             (x_center, of_int (CANVAS_HEIGHT * SCALE_FACTOR))],
          point_a = pa, point_b = pb, point_c = pc,
          additional_points = [pa, pb, pc]\<rparr>)"

section \<open>The figure renderer\<close>

text \<open>
  The draw calls of \<^verbatim>\<open>generate_figure\<close>, the same in both generators but for the
  color (\<^verbatim>\<open>generate_figures.py\<close> lines 157-184 with \<^verbatim>\<open>'black'\<close>,
  \<^verbatim>\<open>generate_figures_simple.py\<close> lines 130-157 with \<^verbatim>\<open>stroke_color\<close>): the lines of
  the main path, the two additional strokes, the circles at the points of the main path,
  the circles at the additional points.
\<close>

definition draw_figure :: "image \<Rightarrow> paths \<Rightarrow> real \<Rightarrow> color \<Rightarrow> pyerror + image" where
  "draw_figure draw fp stroke_scaled color =
     (case draw_lines draw (points fp) stroke_scaled color of
        Inl err \<Rightarrow> Inl err
      | Inr draw1 \<Rightarrow>
          (case draw_antialiased_line draw1
                  (fst (point_a fp)) (snd (point_a fp))
                  (fst (point_b fp)) (snd (point_b fp)) stroke_scaled color of
             Inl err \<Rightarrow> Inl err
           | Inr draw2 \<Rightarrow>
               (case draw_antialiased_line draw2
                       (fst (point_b fp)) (snd (point_b fp))
                       (fst (point_c fp)) (snd (point_c fp)) stroke_scaled color of
                  Inl err \<Rightarrow> Inl err
                | Inr draw3 \<Rightarrow>
                    Inr (draw_joints (draw_joints draw3 (points fp) stroke_scaled color)
                           (additional_points fp) stroke_scaled color))))"

text \<open>
  The supersampled surface after all draw calls, before it is resized: lines 89-184 of
  \<^verbatim>\<open>generate_figures.py\<close> and lines 73-157 of \<^verbatim>\<open>generate_figures_simple.py\<close>.
\<close>

definition supersampled ::
  "real \<Rightarrow> real \<Rightarrow> real \<Rightarrow> real \<Rightarrow> real \<Rightarrow> real \<Rightarrow> real \<Rightarrow> real \<Rightarrow> real \<Rightarrow> real
     \<Rightarrow> pyerror + image" where
  "supersampled a b g c y d e f h stroke_width =
     (let img = Image_new RGBA (CANVAS_WIDTH * SCALE_FACTOR, CANVAS_HEIGHT * SCALE_FACTOR)
                  (ColorTuple 255 255 255 255);
          draw = img;
          stroke_scaled = stroke_width * of_int SCALE_FACTOR
      in case figure_paths a b g c y d e f h of
           Inl err \<Rightarrow> Inl err
         | Inr fp \<Rightarrow> draw_figure draw fp stroke_scaled (ColorName ''black''))"

definition supersampled_simple ::
  "real \<Rightarrow> real \<Rightarrow> real \<Rightarrow> real \<Rightarrow> real \<Rightarrow> real \<Rightarrow> real \<Rightarrow> real \<Rightarrow> string
     \<Rightarrow> pyerror + image" where
  "supersampled_simple a b c d e f g stroke_width stroke_color =
     (let img = Image_new RGBA (CANVAS_WIDTH * SCALE_FACTOR, CANVAS_HEIGHT * SCALE_FACTOR)
                  (ColorTuple 255 255 255 255);
          draw = img;
          stroke_scaled = stroke_width * of_int SCALE_FACTOR
      in draw_figure draw (figure_paths_simple a b c d e f g) stroke_scaled
           (ColorName stroke_color))"

text \<open>
  The end of \<^verbatim>\<open>generate_figure\<close> in both generators (lines 186-193 and 159-166):
  \<^verbatim>\<open>img = img.resize((CANVAS_WIDTH, CANVAS_HEIGHT), Image.LANCZOS)\<close>,
  \<^verbatim>\<open>rgb_img = Image.new('RGB', (CANVAS_WIDTH, CANVAS_HEIGHT), 'white')\<close>,
  \<^verbatim>\<open>rgb_img.paste(img, mask=img.split()[3] if img.mode == 'RGBA' else None)\<close>,
  \<^verbatim>\<open>return rgb_img\<close>.
\<close>

definition downsample :: "image \<Rightarrow> pyerror + image" where
  "downsample img0 =
     (let img = resize img0 (CANVAS_WIDTH, CANVAS_HEIGHT) LANCZOS;
          rgb_img = Image_new RGB (CANVAS_WIDTH, CANVAS_HEIGHT) (ColorName ''white'')
      in if im_mode img = RGBA
         then (case getitem (split img) 3 of
                 Inl err \<Rightarrow> Inl err
               | Inr band \<Rightarrow> Inr (paste rgb_img img (Some band)))
         else Inr (paste rgb_img img None))"

text \<open>\<^verbatim>\<open>generate_figure\<close> of \<^verbatim>\<open>generate_figures.py\<close>.\<close>

definition generate_figure ::
  "real \<Rightarrow> real \<Rightarrow> real \<Rightarrow> real \<Rightarrow> real \<Rightarrow> real \<Rightarrow> real \<Rightarrow> real \<Rightarrow> real \<Rightarrow> real
     \<Rightarrow> pyerror + image" where
  "generate_figure a b g c y d e f h stroke_width =
     (case supersampled a b g c y d e f h stroke_width of
        Inl err \<Rightarrow> Inl err
      | Inr img \<Rightarrow> downsample img)"

text \<open>\<^verbatim>\<open>generate_figure\<close> of \<^verbatim>\<open>generate_figures_simple.py\<close>.\<close>

definition generate_figure_simple ::
  "real \<Rightarrow> real \<Rightarrow> real \<Rightarrow> real \<Rightarrow> real \<Rightarrow> real \<Rightarrow> real \<Rightarrow> real \<Rightarrow> string
     \<Rightarrow> pyerror + image" where
  "generate_figure_simple a b c d e f g stroke_width stroke_color =
     (case supersampled_simple a b c d e f g stroke_width stroke_color of
        Inl err \<Rightarrow> Inl err
      | Inr img \<Rightarrow> downsample img)"

section \<open>Reading a rendered surface\<close>

text \<open>
  The draw call \<^verbatim>\<open>draw_antialiased_line\<close> makes for a segment from \<open>p\<close> to \<open>q\<close> with
  distinct endpoints, and the calls the loop over a path makes: one for each pair of
  consecutive points that differ, in path order.
\<close>

definition stroke_quad :: "point \<Rightarrow> point \<Rightarrow> real \<Rightarrow> color \<Rightarrow> draw_op" where
  "stroke_quad p q width color =
     (let dx = fst q - fst p;
          dy = snd q - snd p;
          len = sqrt (dx * dx + dy * dy);
          px = - (dy / len) * width / 2;
          py = dx / len * width / 2
      in Polygon [(fst p + px, snd p + py),
                  (fst p - px, snd p - py),
                  (fst q - px, snd q - py),
                  (fst q + px, snd q + py)] color)"

fun path_segments :: "point list \<Rightarrow> real \<Rightarrow> color \<Rightarrow> draw_op list" where
  "path_segments (p # q # ps) width color =
     (if p = q then [] else [stroke_quad p q width color])
     @ path_segments (q # ps) width color"
| "path_segments ps width color = []"

text \<open>The joint disc at a point: the ellipse in the square of side \<open>width\<close> around it.\<close>

definition joint_disc :: "point \<Rightarrow> real \<Rightarrow> color \<Rightarrow> draw_op" where
  "joint_disc p width color =
     Ellipse (fst p - width / 2, snd p - width / 2) (fst p + width / 2, snd p + width / 2)
       color"

definition path_joints :: "point list \<Rightarrow> real \<Rightarrow> color \<Rightarrow> draw_op list" where
  "path_joints ps width color = map (\<lambda>p. joint_disc p width color) ps"

text \<open>A surface after a list of draw calls, made in the order of the list.\<close>

definition drawn_all :: "image \<Rightarrow> draw_op list \<Rightarrow> image" where
  "drawn_all draw ds = draw\<lparr>im_pixels := foldl Drawn (im_pixels draw) ds\<rparr>"

definition figure_ops :: "paths \<Rightarrow> real \<Rightarrow> color \<Rightarrow> draw_op list" where
  "figure_ops fp width color =
     path_segments (points fp) width color
     @ path_segments [point_a fp, point_b fp, point_c fp] width color
     @ path_joints (points fp) width color
     @ path_joints (additional_points fp) width color"

text \<open>
  What a surface shows at a pixel. \<^verbatim>\<open>ImageDraw.Draw(img, 'RGBA')\<close> on an image of
  mode RGBA writes the fill color over what was there: a draw call that covers the pixel
  replaces its color, one that does not leaves it. Which pixels a shape covers is the
  library's rasterizer, the parameter \<open>covers\<close>. Resampling, band extraction and pasting
  are not interpreted (\<open>None\<close>).
\<close>

fun op_fill :: "draw_op \<Rightarrow> color" where
  "op_fill (Polygon pts c) = c"
| "op_fill (Ellipse lu rd c) = c"

fun pixel_of :: "(draw_op \<Rightarrow> int \<times> int \<Rightarrow> bool) \<Rightarrow> pixels \<Rightarrow> int \<times> int \<Rightarrow> color option" where
  "pixel_of covers (New c) xy = Some c"
| "pixel_of covers (Drawn p d) xy =
     (if covers d xy then Some (op_fill d) else pixel_of covers p xy)"
| "pixel_of covers (Resized p sz flt) xy = None"
| "pixel_of covers (Band p k) xy = None"
| "pixel_of covers (Pasted p q m) xy = None"

text \<open>
  The order of draw calls in the words of the specification, section 4.3: the segments of
  a path in path order, followed by all joint discs of that path, then the auxiliary
  path's segments and joints. It is compared below with the order of the code.
\<close>

definition spec_draw_order :: "paths \<Rightarrow> real \<Rightarrow> color \<Rightarrow> draw_op list" where
  "spec_draw_order fp width color =
     path_segments (points fp) width color
     @ path_joints (points fp) width color
     @ path_segments (additional_points fp) width color
     @ path_joints (additional_points fp) width color"

definition draw_calls :: "pyerror + image \<Rightarrow> pyerror + draw_op list" where
  "draw_calls r =
     (case r of Inl err \<Rightarrow> Inl err | Inr img \<Rightarrow> Inr (draw_log (im_pixels img)))"

section \<open>Properties of the segment rasterizer\<close>

lemma math_sqrt_sum_squares:
  "math_sqrt (dx * dx + dy * dy) = Inr (sqrt (dx * dx + dy * dy))"
  by (simp add: math_sqrt_def not_less)

lemma sqrt_sum_squares_zero_iff:
  "sqrt (dx * dx + dy * dy) = 0 \<longleftrightarrow> dx = 0 \<and> dy = (0::real)"
proof -
  have "dx * dx + dy * dy = 0 \<longleftrightarrow> dx = 0 \<and> dy = 0"
    using sum_squares_eq_zero_iff [of dx dy] by simp
  then show ?thesis by simp
qed

lemma draw_antialiased_line_skip:
  "draw_antialiased_line draw x y x y width color = Inr draw"
  by (simp add: draw_antialiased_line_def math_sqrt_def)

lemma draw_antialiased_line_quad:
  assumes "x1 \<noteq> x2 \<or> y1 \<noteq> y2"
  shows "draw_antialiased_line draw x1 y1 x2 y2 width color =
           Inr (polygon draw
             [(x1 + - ((y2 - y1) / sqrt ((x2 - x1) * (x2 - x1) + (y2 - y1) * (y2 - y1))) * width / 2,
               y1 + (x2 - x1) / sqrt ((x2 - x1) * (x2 - x1) + (y2 - y1) * (y2 - y1)) * width / 2),
              (x1 - - ((y2 - y1) / sqrt ((x2 - x1) * (x2 - x1) + (y2 - y1) * (y2 - y1))) * width / 2,
               y1 - (x2 - x1) / sqrt ((x2 - x1) * (x2 - x1) + (y2 - y1) * (y2 - y1)) * width / 2),
              (x2 - - ((y2 - y1) / sqrt ((x2 - x1) * (x2 - x1) + (y2 - y1) * (y2 - y1))) * width / 2,
               y2 - (x2 - x1) / sqrt ((x2 - x1) * (x2 - x1) + (y2 - y1) * (y2 - y1)) * width / 2),
              (x2 + - ((y2 - y1) / sqrt ((x2 - x1) * (x2 - x1) + (y2 - y1) * (y2 - y1))) * width / 2,
               y2 + (x2 - x1) / sqrt ((x2 - x1) * (x2 - x1) + (y2 - y1) * (y2 - y1)) * width / 2)]
             color)"
proof -
  define len where "len = sqrt ((x2 - x1) * (x2 - x1) + (y2 - y1) * (y2 - y1))"
  have nz: "len \<noteq> 0"
    unfolding len_def
    using assms sqrt_sum_squares_zero_iff [of "x2 - x1" "y2 - y1"] by auto
  have "draw_antialiased_line draw x1 y1 x2 y2 width color =
          Inr (polygon draw
            [(x1 + - ((y2 - y1) / len) * width / 2, y1 + (x2 - x1) / len * width / 2),
             (x1 - - ((y2 - y1) / len) * width / 2, y1 - (x2 - x1) / len * width / 2),
             (x2 - - ((y2 - y1) / len) * width / 2, y2 - (x2 - x1) / len * width / 2),
             (x2 + - ((y2 - y1) / len) * width / 2, y2 + (x2 - x1) / len * width / 2)]
            color)"
    unfolding draw_antialiased_line_def Let_def math_sqrt_sum_squares truediv_def
      len_def [symmetric]
    using nz by simp
  then show ?thesis
    unfolding len_def .
qed

lemma drawn_all_Nil: "drawn_all draw [] = draw"
  by (simp add: drawn_all_def)

lemma drawn_all_append: "drawn_all (drawn_all draw ds) es = drawn_all draw (ds @ es)"
  by (simp add: drawn_all_def)

lemma drawn_all_mode: "im_mode (drawn_all draw ds) = im_mode draw"
  by (simp add: drawn_all_def)

lemma polygon_drawn_all: "polygon draw pts c = drawn_all draw [Polygon pts c]"
  by (simp add: polygon_def drawn_all_def)

lemma ellipse_drawn_all: "ellipse draw lu rd c = drawn_all draw [Ellipse lu rd c]"
  by (simp add: ellipse_def drawn_all_def)

lemma draw_antialiased_line_eq:
  "draw_antialiased_line draw (fst p) (snd p) (fst q) (snd q) width color =
     Inr (drawn_all draw (if p = q then [] else [stroke_quad p q width color]))"
proof (cases "p = q")
  case True
  then show ?thesis
    by (simp add: draw_antialiased_line_skip drawn_all_Nil)
next
  case False
  then have "fst p \<noteq> fst q \<or> snd p \<noteq> snd q"
    by (auto simp: prod_eq_iff)
  from draw_antialiased_line_quad [OF this] False show ?thesis
    by (simp add: polygon_drawn_all stroke_quad_def Let_def)
qed

lemma draw_lines_eq:
  "draw_lines draw ps width color = Inr (drawn_all draw (path_segments ps width color))"
proof (induction draw ps width color rule: draw_lines.induct)
  case (1 draw p q ps width color)
  show ?case
    by (simp add: draw_antialiased_line_eq "1.IH" drawn_all_append del: path_segments.simps(1))
       (simp add: drawn_all_append)
qed (simp_all add: drawn_all_Nil)

lemma path_segments_repeated_point:
  "path_segments (ps @ p # p # qs) width color = path_segments (ps @ p # qs) width color"
proof (induction ps rule: induct_list012)
  case 1
  show ?case by simp
next
  case (2 x)
  show ?case by simp
next
  case (3 x y zs)
  then show ?case by simp
qed

lemma draw_joints_eq:
  "draw_joints draw ps width color = drawn_all draw (path_joints ps width color)"
  by (induction ps arbitrary: draw)
     (simp_all add: path_joints_def joint_disc_def drawn_all_Nil ellipse_drawn_all
        drawn_all_append Let_def)

lemma draw_figure_eq:
  "draw_figure draw fp width color = Inr (drawn_all draw (figure_ops fp width color))"
  unfolding draw_figure_def figure_ops_def
  by (simp add: draw_lines_eq draw_antialiased_line_eq draw_joints_eq drawn_all_append)

section \<open>Properties of the builders and of the renderer\<close>

lemma draw_log_foldl: "draw_log (foldl Drawn p ds) = draw_log p @ ds"
  by (induction ds arbitrary: p) simp_all

lemma pixel_of_foldl:
  "pixel_of covers (foldl Drawn (New c) ds) xy =
     Some (case find (\<lambda>d. covers d xy) (rev ds) of None \<Rightarrow> c | Some d \<Rightarrow> op_fill d)"
proof (induction ds rule: rev_induct)
  case Nil
  show ?case by simp
next
  case (snoc d ds)
  then show ?case by simp
qed

lemma canvas_pixels:
  "im_pixels (drawn_all (Image_new m sz c) ds) = foldl Drawn (New c) ds"
  by (simp add: drawn_all_def Image_new_def)

lemma canvas_painted:
  "im_pixels img = foldl Drawn (New bg) ds \<Longrightarrow>
   draw_log (im_pixels img) = ds
   \<and> (\<forall>covers xy. pixel_of covers (im_pixels img) xy =
         Some (case find (\<lambda>d. covers d xy) (rev (draw_log (im_pixels img))) of
                 None \<Rightarrow> bg
               | Some d \<Rightarrow> op_fill d))"
  by (simp add: draw_log_foldl pixel_of_foldl)

lemma figure_paths_points:
  "figure_paths a b g c y d e f h =
     Inr \<lparr>points =
            [(1500, 0),
             (1500, a * 10),
             (1500 + sqrt ((d * 10)\<^sup>2 + (b * 10)\<^sup>2) * sin (g * pi / 180),
              a * 10 + sqrt ((d * 10)\<^sup>2 + (b * 10)\<^sup>2) * cos (g * pi / 180)),
             (1500, a * 10 + sqrt ((d * 10)\<^sup>2 + (b * 10)\<^sup>2) * cos (g * pi / 180)),
             (1500, a * 10 + b * 10 + c * 10),
             (1500 - d * 10, a * 10 + b * 10 + c * 10),
             (1500 - d * 10 + d * 10 * sin (- y * pi / 180),
              a * 10 + b * 10 + c * 10 + d * 10 * cos (- y * pi / 180)),
             (1500 - d * 10 + d * 10 * sin (- y * pi / 180), 5000)],
          point_a = (1500 - e * 10, a * 10),
          point_b = (1500 - e * 10 - f * 10, a * 10),
          point_c = (1500 - e * 10, a * 10 + h * 10),
          additional_points =
            [(1500 - e * 10, a * 10),
             (1500 - e * 10 - f * 10, a * 10),
             (1500 - e * 10, a * 10 + h * 10)]\<rparr>"
  by (simp add: figure_paths_def Let_def math_sqrt_def not_less calculate_point_from_angle_def
        math_radians_def SCALE_FACTOR_def CANVAS_HEIGHT_def)

lemma figure_paths_simple_points:
  "figure_paths_simple a b c d e f g =
     \<lparr>points =
        [(1500, 0),
         (1500, a * 10),
         (1500 + c * 10, a * 10 + b * 10),
         (1500, a * 10 + b * 10),
         (1500, a * 10 + b * 10 + c * 10),
         (1500 - d * 10, a * 10 + b * 10 + c * 10),
         (1500, a * 10 + b * 10 + c * 10 + d * 10),
         (1500, 5000)],
      point_a = (1500 - e * 10, a * 10),
      point_b = (1500 - e * 10 - f * 10, a * 10),
      point_c = (1500 - e * 10, a * 10 + g * 10),
      additional_points =
        [(1500 - e * 10, a * 10),
         (1500 - e * 10 - f * 10, a * 10),
         (1500 - e * 10, a * 10 + g * 10)]\<rparr>"
  by (simp add: figure_paths_simple_def Let_def SCALE_FACTOR_def CANVAS_HEIGHT_def)

lemma figure_paths_eq:
  "\<exists>fp. figure_paths a b g c y d e f h = Inr fp"
  by (simp add: figure_paths_points)

lemma figure_paths_additional:
  "figure_paths a b g c y d e f h = Inr fp \<Longrightarrow>
   additional_points fp = [point_a fp, point_b fp, point_c fp]"
  by (auto simp: figure_paths_points)

lemma figure_paths_simple_additional:
  "additional_points (figure_paths_simple a b c d e f g) =
     [point_a (figure_paths_simple a b c d e f g),
      point_b (figure_paths_simple a b c d e f g),
      point_c (figure_paths_simple a b c d e f g)]"
  by (simp add: figure_paths_simple_points)

lemma figure_ops_additional:
  "additional_points fp = [point_a fp, point_b fp, point_c fp] \<Longrightarrow>
   figure_ops fp width color =
     path_segments (points fp) width color
     @ path_segments (additional_points fp) width color
     @ path_joints (points fp) width color
     @ path_joints (additional_points fp) width color"
  by (simp add: figure_ops_def)

lemma sqrt_scaled: "sqrt ((d * 10)\<^sup>2 + (b * 10)\<^sup>2) = 10 * sqrt (d\<^sup>2 + b\<^sup>2)"
proof -
  have "(d * 10)\<^sup>2 + (b * 10)\<^sup>2 = 10\<^sup>2 * (d\<^sup>2 + b\<^sup>2)"
    by (simp add: power2_eq_square algebra_simps)
  then have "sqrt ((d * 10)\<^sup>2 + (b * 10)\<^sup>2) = sqrt (10\<^sup>2) * sqrt (d\<^sup>2 + b\<^sup>2)"
    by (simp only: real_sqrt_mult)
  also have "sqrt (10\<^sup>2) = (10::real)"
    by simp
  finally show ?thesis .
qed

lemma supersampled_eq:
  "figure_paths a b g c y d e f h = Inr fp \<Longrightarrow>
   supersampled a b g c y d e f h stroke_width =
     Inr (drawn_all
            (Image_new RGBA (CANVAS_WIDTH * SCALE_FACTOR, CANVAS_HEIGHT * SCALE_FACTOR)
               (ColorTuple 255 255 255 255))
            (figure_ops fp (stroke_width * of_int SCALE_FACTOR) (ColorName ''black'')))"
  by (simp add: supersampled_def Let_def draw_figure_eq)

lemma supersampled_simple_eq:
  "supersampled_simple a b c d e f g stroke_width stroke_color =
     Inr (drawn_all
            (Image_new RGBA (CANVAS_WIDTH * SCALE_FACTOR, CANVAS_HEIGHT * SCALE_FACTOR)
               (ColorTuple 255 255 255 255))
            (figure_ops (figure_paths_simple a b c d e f g)
               (stroke_width * of_int SCALE_FACTOR) (ColorName stroke_color)))"
  by (simp add: supersampled_simple_def Let_def draw_figure_eq)

lemma downsample_eq:
  "im_mode img = RGBA \<Longrightarrow>
   \<exists>out. downsample img = Inr out \<and> im_size out = (CANVAS_WIDTH, CANVAS_HEIGHT)
     \<and> im_mode out = RGB"
  by (simp add: downsample_def Let_def resize_def getitem_def split_def paste_def
        Image_new_def)

lemma fifth_point_descent:
  "figure_paths a b g c y d e f h = Inr fp \<Longrightarrow>
   snd (points fp ! 4) - snd (points fp ! 3)
     = (b + c) * 10 - 10 * sqrt (d\<^sup>2 + b\<^sup>2) * cos (g * pi / 180)"
  unfolding figure_paths_points sqrt_scaled
  by (auto simp: algebra_simps)

lemma example_points:
  "points (figure_paths_simple 100 50 50 20 20 20 15) =
     [(1500, 0), (1500, 1000), (2000, 1500), (1500, 1500),
      (1500, 2000), (1300, 2000), (1500, 2200), (1500, 5000)]"
  by (simp add: figure_paths_simple_points)

lemma example_additional_points:
  "additional_points (figure_paths_simple 100 50 50 20 20 20 15) =
     [(1300, 1000), (1100, 1000), (1300, 1150)]"
  by (simp add: figure_paths_simple_points)

section \<open>The claims\<close>

text \<open>
  C1. Given two coinciding endpoints, \<^verbatim>\<open>draw_antialiased_line\<close> returns without an
  error and without a draw call: the drawing surface is returned as it was, for every
  point, every stroke width and every color, so the division by the length is not
  reached. Rendering goes on: in the loop over a path, a point that is repeated anywhere
  in the path draws nothing and the loop continues with the segments that follow, with
  the result it has on the path where the point stands once.
\<close>

theorem zero_length_segment_is_skipped:
  "draw_antialiased_line draw x y x y width color = Inr draw
   \<and> draw_lines draw (ps @ p # p # qs) width color
       = draw_lines draw (ps @ p # qs) width color"
proof
  show "draw_antialiased_line draw x y x y width color = Inr draw"
    by (rule draw_antialiased_line_skip)
  show "draw_lines draw (ps @ p # p # qs) width color
          = draw_lines draw (ps @ p # qs) width color"
    by (simp only: draw_lines_eq path_segments_repeated_point)
qed

text \<open>
  C2. For every parameter set, both generators return an image (no error is raised) of
  exactly \<^verbatim>\<open>CANVAS_WIDTH\<close> by \<^verbatim>\<open>CANVAS_HEIGHT\<close> pixels, that is 300 by 500, of
  mode RGB, which has no alpha band.
\<close>

theorem generate_figure_returns_canvas_sized_rgb:
  "(\<exists>img. generate_figure a b g c y d e f h stroke_width = Inr img
      \<and> im_size img = (CANVAS_WIDTH, CANVAS_HEIGHT) \<and> im_size img = (300, 500)
      \<and> im_mode img = RGB)
   \<and> (\<exists>img. generate_figure_simple a2 b2 c2 d2 e2 f2 g2 stroke_width2 stroke_color = Inr img
      \<and> im_size img = (CANVAS_WIDTH, CANVAS_HEIGHT) \<and> im_size img = (300, 500)
      \<and> im_mode img = RGB)"
proof -
  obtain fp where fp: "figure_paths a b g c y d e f h = Inr fp"
    using figure_paths_eq by blast
  obtain sup where sup: "supersampled a b g c y d e f h stroke_width = Inr sup"
    and m: "im_mode sup = RGBA"
    by (simp add: supersampled_eq [OF fp] drawn_all_mode Image_new_def)
  obtain sup2 where
    sup2: "supersampled_simple a2 b2 c2 d2 e2 f2 g2 stroke_width2 stroke_color = Inr sup2"
    and m2: "im_mode sup2 = RGBA"
    by (simp add: supersampled_simple_eq drawn_all_mode Image_new_def)
  from downsample_eq [OF m] downsample_eq [OF m2] show ?thesis
    by (auto simp: generate_figure_def generate_figure_simple_def sup sup2
          CANVAS_WIDTH_def CANVAS_HEIGHT_def)
qed

text \<open>
  C4. In the angle-based builder the fourth point of the main path is at the height
  \<^verbatim>\<open>end_y\<close> the turned segment reached, and the fifth at the height
  \<^verbatim>\<open>a_scaled + b_scaled + c_scaled\<close>. At the parameters a = 100, b = 50, g = 60,
  c = 50, y = 290, d = 20, e = 20, f = 20, h = 15, all taken from \<^verbatim>\<open>PARAM_RANGES\<close>,
  the fifth point lies \<open>1000 - sqrt 290000 / 2\<close> (about 730.7) below the fourth in
  supersampled units, not the \<open>c * SCALE_FACTOR = 500\<close> that a descent by length c would
  give.
\<close>

theorem fifth_point_not_c_below_fourth:
  "\<exists>fp. figure_paths 100 50 60 50 290 20 20 20 15 = Inr fp
      \<and> snd (points fp ! 4) - snd (points fp ! 3) = 1000 - sqrt 290000 / 2
      \<and> snd (points fp ! 4) - snd (points fp ! 3) \<noteq> 50 * of_int SCALE_FACTOR"
proof -
  have c: "cos (pi / 3) = 1 / 2"
    by (rule cos_60)
  have "sqrt 290000 < sqrt 1000000"
    by (simp only: real_sqrt_less_iff)
  moreover have "sqrt 1000000 = 1000"
    using real_sqrt_abs [of 1000] by simp
  ultimately have lt: "sqrt 290000 < 1000"
    by simp
  show ?thesis
    using lt by (simp add: figure_paths_points c SCALE_FACTOR_def)
qed

text \<open>
  C5, the order of the specification fails. For the straight-line figure a = 100, b = 50,
  c = 50, d = 20, e = 20, f = 20, g = 15, stroke width 3, color \<^verbatim>\<open>#000000\<close>, the draw
  calls the code makes are not in the order of section 4.3: the eighth call of the code is
  the first additional stroke, where the specification has the first joint disc of the
  main path.
\<close>

theorem spec_draw_order_counterexample:
  "draw_calls (supersampled_simple 100 50 50 20 20 20 15 3 ''#000000'')
     \<noteq> Inr (spec_draw_order (figure_paths_simple 100 50 50 20 20 20 15)
              (3 * of_int SCALE_FACTOR) (ColorName ''#000000''))"
proof -
  have "draw_calls (supersampled_simple 100 50 50 20 20 20 15 3 ''#000000'')
          = Inr (figure_ops (figure_paths_simple 100 50 50 20 20 20 15)
                   (3 * of_int SCALE_FACTOR) (ColorName ''#000000''))"
    by (simp add: draw_calls_def supersampled_simple_eq canvas_pixels draw_log_foldl)
  moreover have "figure_ops (figure_paths_simple 100 50 50 20 20 20 15)
                   (3 * of_int SCALE_FACTOR) (ColorName ''#000000'')
       \<noteq> spec_draw_order (figure_paths_simple 100 50 50 20 20 20 15)
              (3 * of_int SCALE_FACTOR) (ColorName ''#000000'')"
    unfolding figure_ops_additional [OF figure_paths_simple_additional] spec_draw_order_def
      example_points example_additional_points
    by (simp add: path_joints_def joint_disc_def stroke_quad_def Let_def)
  ultimately show ?thesis
    by simp
qed

text \<open>
  C5, as amended. For every figure of either generator, rendering raises no error and the
  draw calls on the supersampled surface are, in this order: the segments of the main
  path in path order (one quadrilateral for each pair of consecutive points that differ),
  then the segments of the auxiliary path, then the joint discs of all points of the main
  path, then the joint discs of the auxiliary path. Each call writes its fill color over
  what was there: a pixel shows the color of the last call that covers it, and the white
  background where no call covers it.
\<close>

theorem draw_order_segments_then_joints:
  "(\<exists>fp img.
      figure_paths a b g c y d e f h = Inr fp
    \<and> supersampled a b g c y d e f h stroke_width = Inr img
    \<and> draw_log (im_pixels img) =
        path_segments (points fp) (stroke_width * of_int SCALE_FACTOR) (ColorName ''black'')
        @ path_segments (additional_points fp) (stroke_width * of_int SCALE_FACTOR)
            (ColorName ''black'')
        @ path_joints (points fp) (stroke_width * of_int SCALE_FACTOR) (ColorName ''black'')
        @ path_joints (additional_points fp) (stroke_width * of_int SCALE_FACTOR)
            (ColorName ''black'')
    \<and> (\<forall>covers xy. pixel_of covers (im_pixels img) xy =
          Some (case find (\<lambda>d. covers d xy) (rev (draw_log (im_pixels img))) of
                  None \<Rightarrow> ColorTuple 255 255 255 255
                | Some d \<Rightarrow> op_fill d)))
   \<and> (\<exists>img.
      supersampled_simple a2 b2 c2 d2 e2 f2 g2 stroke_width2 stroke_color = Inr img
    \<and> draw_log (im_pixels img) =
        path_segments (points (figure_paths_simple a2 b2 c2 d2 e2 f2 g2))
          (stroke_width2 * of_int SCALE_FACTOR) (ColorName stroke_color)
        @ path_segments (additional_points (figure_paths_simple a2 b2 c2 d2 e2 f2 g2))
            (stroke_width2 * of_int SCALE_FACTOR) (ColorName stroke_color)
        @ path_joints (points (figure_paths_simple a2 b2 c2 d2 e2 f2 g2))
            (stroke_width2 * of_int SCALE_FACTOR) (ColorName stroke_color)
        @ path_joints (additional_points (figure_paths_simple a2 b2 c2 d2 e2 f2 g2))
            (stroke_width2 * of_int SCALE_FACTOR) (ColorName stroke_color)
    \<and> (\<forall>covers xy. pixel_of covers (im_pixels img) xy =
          Some (case find (\<lambda>d. covers d xy) (rev (draw_log (im_pixels img))) of
                  None \<Rightarrow> ColorTuple 255 255 255 255
                | Some d \<Rightarrow> op_fill d)))"
proof (rule conjI)
  obtain fp where fp: "figure_paths a b g c y d e f h = Inr fp"
    using figure_paths_eq by blast
  define img where "img = drawn_all
            (Image_new RGBA (CANVAS_WIDTH * SCALE_FACTOR, CANVAS_HEIGHT * SCALE_FACTOR)
               (ColorTuple 255 255 255 255))
            (figure_ops fp (stroke_width * of_int SCALE_FACTOR) (ColorName ''black''))"
  have run: "supersampled a b g c y d e f h stroke_width = Inr img"
    unfolding img_def by (rule supersampled_eq [OF fp])
  have "im_pixels img = foldl Drawn (New (ColorTuple 255 255 255 255))
          (figure_ops fp (stroke_width * of_int SCALE_FACTOR) (ColorName ''black''))"
    unfolding img_def by (rule canvas_pixels)
  from canvas_painted [OF this] fp run
  show "\<exists>fp img.
      figure_paths a b g c y d e f h = Inr fp
    \<and> supersampled a b g c y d e f h stroke_width = Inr img
    \<and> draw_log (im_pixels img) =
        path_segments (points fp) (stroke_width * of_int SCALE_FACTOR) (ColorName ''black'')
        @ path_segments (additional_points fp) (stroke_width * of_int SCALE_FACTOR)
            (ColorName ''black'')
        @ path_joints (points fp) (stroke_width * of_int SCALE_FACTOR) (ColorName ''black'')
        @ path_joints (additional_points fp) (stroke_width * of_int SCALE_FACTOR)
            (ColorName ''black'')
    \<and> (\<forall>covers xy. pixel_of covers (im_pixels img) xy =
          Some (case find (\<lambda>d. covers d xy) (rev (draw_log (im_pixels img))) of
                  None \<Rightarrow> ColorTuple 255 255 255 255
                | Some d \<Rightarrow> op_fill d))"
    unfolding figure_ops_additional [OF figure_paths_additional [OF fp]]
    by blast
next
  define img where "img = drawn_all
            (Image_new RGBA (CANVAS_WIDTH * SCALE_FACTOR, CANVAS_HEIGHT * SCALE_FACTOR)
               (ColorTuple 255 255 255 255))
            (figure_ops (figure_paths_simple a2 b2 c2 d2 e2 f2 g2)
               (stroke_width2 * of_int SCALE_FACTOR) (ColorName stroke_color))"
  have run: "supersampled_simple a2 b2 c2 d2 e2 f2 g2 stroke_width2 stroke_color = Inr img"
    unfolding img_def by (rule supersampled_simple_eq)
  have "im_pixels img = foldl Drawn (New (ColorTuple 255 255 255 255))
          (figure_ops (figure_paths_simple a2 b2 c2 d2 e2 f2 g2)
               (stroke_width2 * of_int SCALE_FACTOR) (ColorName stroke_color))"
    unfolding img_def by (rule canvas_pixels)
  from canvas_painted [OF this] run
  show "\<exists>img.
      supersampled_simple a2 b2 c2 d2 e2 f2 g2 stroke_width2 stroke_color = Inr img
    \<and> draw_log (im_pixels img) =
        path_segments (points (figure_paths_simple a2 b2 c2 d2 e2 f2 g2))
          (stroke_width2 * of_int SCALE_FACTOR) (ColorName stroke_color)
        @ path_segments (additional_points (figure_paths_simple a2 b2 c2 d2 e2 f2 g2))
            (stroke_width2 * of_int SCALE_FACTOR) (ColorName stroke_color)
        @ path_joints (points (figure_paths_simple a2 b2 c2 d2 e2 f2 g2))
            (stroke_width2 * of_int SCALE_FACTOR) (ColorName stroke_color)
        @ path_joints (additional_points (figure_paths_simple a2 b2 c2 d2 e2 f2 g2))
            (stroke_width2 * of_int SCALE_FACTOR) (ColorName stroke_color)
    \<and> (\<forall>covers xy. pixel_of covers (im_pixels img) xy =
          Some (case find (\<lambda>d. covers d xy) (rev (draw_log (im_pixels img))) of
                  None \<Rightarrow> ColorTuple 255 255 255 255
                | Some d \<Rightarrow> op_fill d))"
    unfolding figure_ops_additional [OF figure_paths_simple_additional]
    by blast
qed

text \<open>
  C7. For a segment whose endpoints differ and every width, \<^verbatim>\<open>draw_antialiased_line\<close>
  raises no error and makes exactly one draw call, a polygon of four corners filled with
  the given color. The corners are the first endpoint plus and minus, then the second
  endpoint minus and plus, the vector \<open>(nx, ny)\<close> times half the width, where
  \<open>(nx, ny)\<close> is the direction of the segment divided by its length and turned by a right
  angle: it is perpendicular to the segment and of length one.
\<close>

theorem segment_fills_one_quadrilateral:
  assumes "(x1, y1) \<noteq> (x2, y2)"
  shows "\<exists>nx ny.
           nx = - ((y2 - y1) / sqrt ((x2 - x1) * (x2 - x1) + (y2 - y1) * (y2 - y1)))
         \<and> ny = (x2 - x1) / sqrt ((x2 - x1) * (x2 - x1) + (y2 - y1) * (y2 - y1))
         \<and> nx * (x2 - x1) + ny * (y2 - y1) = 0
         \<and> nx * nx + ny * ny = 1
         \<and> draw_antialiased_line draw x1 y1 x2 y2 width color =
             Inr (polygon draw
                    [(x1 + nx * width / 2, y1 + ny * width / 2),
                     (x1 - nx * width / 2, y1 - ny * width / 2),
                     (x2 - nx * width / 2, y2 - ny * width / 2),
                     (x2 + nx * width / 2, y2 + ny * width / 2)] color)
         \<and> draw_log (im_pixels (polygon draw
                    [(x1 + nx * width / 2, y1 + ny * width / 2),
                     (x1 - nx * width / 2, y1 - ny * width / 2),
                     (x2 - nx * width / 2, y2 - ny * width / 2),
                     (x2 + nx * width / 2, y2 + ny * width / 2)] color))
             = draw_log (im_pixels draw) @
                 [Polygon
                    [(x1 + nx * width / 2, y1 + ny * width / 2),
                     (x1 - nx * width / 2, y1 - ny * width / 2),
                     (x2 - nx * width / 2, y2 - ny * width / 2),
                     (x2 + nx * width / 2, y2 + ny * width / 2)] color]"
proof -
  define s where "s = (x2 - x1) * (x2 - x1) + (y2 - y1) * (y2 - y1)"
  define len where "len = sqrt s"
  have ne: "x1 \<noteq> x2 \<or> y1 \<noteq> y2"
    using assms by simp
  have s_nonneg: "0 \<le> s"
    unfolding s_def by simp
  have nz: "len \<noteq> 0"
    unfolding len_def s_def
    using ne sqrt_sum_squares_zero_iff [of "x2 - x1" "y2 - y1"] by auto
  have sq: "len * len = s"
    unfolding len_def using s_nonneg by simp
  have perp: "- ((y2 - y1) / len) * (x2 - x1) + (x2 - x1) / len * (y2 - y1) = 0"
    by simp
  have "- ((y2 - y1) / len) * - ((y2 - y1) / len) + (x2 - x1) / len * ((x2 - x1) / len)
          = s / (len * len)"
    unfolding s_def by (simp add: add_divide_distrib)
  also have "\<dots> = 1"
    unfolding sq [symmetric] using nz by simp
  finally have unit: "- ((y2 - y1) / len) * - ((y2 - y1) / len)
                        + (x2 - x1) / len * ((x2 - x1) / len) = 1" .
  have run: "draw_antialiased_line draw x1 y1 x2 y2 width color =
             Inr (polygon draw
                    [(x1 + - ((y2 - y1) / len) * width / 2, y1 + (x2 - x1) / len * width / 2),
                     (x1 - - ((y2 - y1) / len) * width / 2, y1 - (x2 - x1) / len * width / 2),
                     (x2 - - ((y2 - y1) / len) * width / 2, y2 - (x2 - x1) / len * width / 2),
                     (x2 + - ((y2 - y1) / len) * width / 2, y2 + (x2 - x1) / len * width / 2)]
                    color)"
    unfolding len_def s_def by (rule draw_antialiased_line_quad [OF ne])
  have log: "draw_log (im_pixels (polygon draw pts color))
               = draw_log (im_pixels draw) @ [Polygon pts color]" for pts
    by (simp add: polygon_def)
  show ?thesis
    unfolding len_def [symmetric] s_def [symmetric]
    using perp unit run log by blast
qed

text \<open>
  The vertical segment from (0, 0) to (0, 4) of width 6 on a fresh surface: its length is
  4, its unit normal (-1, 0), and the one polygon has the corners (-3, 0), (3, 0), (3, 4),
  (-3, 4).
\<close>

theorem segment_fills_one_quadrilateral_witness:
  "draw_antialiased_line (Image_new RGBA (3000, 5000) (ColorTuple 255 255 255 255))
      0 0 0 4 6 (ColorName ''black'')
   = Inr (polygon (Image_new RGBA (3000, 5000) (ColorTuple 255 255 255 255))
            [(-3, 0), (3, 0), (3, 4), (-3, 4)] (ColorName ''black''))"
proof -
  have ne: "((0::real), (0::real)) \<noteq> (0, 4)" by simp
  have r: "sqrt 16 = 4"
    using real_sqrt_abs [of 4] by simp
  show ?thesis
    using segment_fills_one_quadrilateral
      [OF ne, of "Image_new RGBA (3000, 5000) (ColorTuple 255 255 255 255)" 6
        "ColorName ''black''"]
    by (simp add: r)
qed

text \<open>
  C8. In the angle-based builder, for every input, the builder raises no error, the
  second point is the end of the first descent, and the third point is the second
  displaced by \<open>(q * sin g, q * cos g)\<close> times \<^verbatim>\<open>SCALE_FACTOR\<close>, where
  \<open>q = sqrt (d\<^sup>2 + b\<^sup>2)\<close> is computed from d and b and the angle g is the caller's,
  taken in degrees (\<open>g * pi / 180\<close> radians) and used as it is given. The turned segment
  has length q times \<^verbatim>\<open>SCALE_FACTOR\<close>.
\<close>

theorem turned_segment_endpoint:
  "\<exists>fp. figure_paths a b g c y d e f h = Inr fp
      \<and> points fp ! 1 = (of_int (150 * SCALE_FACTOR), a * of_int SCALE_FACTOR)
      \<and> points fp ! 2 =
          (fst (points fp ! 1)
             + of_int SCALE_FACTOR * (sqrt (d\<^sup>2 + b\<^sup>2) * sin (g * pi / 180)),
           snd (points fp ! 1)
             + of_int SCALE_FACTOR * (sqrt (d\<^sup>2 + b\<^sup>2) * cos (g * pi / 180)))
      \<and> (fst (points fp ! 2) - fst (points fp ! 1))\<^sup>2
          + (snd (points fp ! 2) - snd (points fp ! 1))\<^sup>2
          = (of_int SCALE_FACTOR * sqrt (d\<^sup>2 + b\<^sup>2))\<^sup>2"
proof -
  define q where "q = sqrt (d\<^sup>2 + b\<^sup>2)"
  define t where "t = g * pi / 180"
  have "(10 * q * sin t)\<^sup>2 + (10 * q * cos t)\<^sup>2 = (10 * q)\<^sup>2 * ((sin t)\<^sup>2 + (cos t)\<^sup>2)"
    by (simp only: power_mult_distrib distrib_left)
  then have len: "(10 * q * sin t)\<^sup>2 + (10 * q * cos t)\<^sup>2 = (10 * q)\<^sup>2"
    by (simp only: sin_cos_squared_add mult_1_right)
  show ?thesis
    unfolding figure_paths_points sqrt_scaled q_def [symmetric] t_def [symmetric]
    using len by (simp add: SCALE_FACTOR_def)
qed

text \<open>
  C9. For the straight-line figure a = 100, b = 50, c = 50, d = 20, e = 20, f = 20,
  g = 15, the points of the main path, divided by \<^verbatim>\<open>SCALE_FACTOR\<close>, have the heights
  0, 100, 150, 150, 200, 200, 220 and, for the last point, 500, which is the bottom edge
  \<^verbatim>\<open>CANVAS_HEIGHT\<close>; their horizontal positions are 150, 150, 200, 150, 150, 130, 150,
  150. Rendered with stroke width 3 and color \<^verbatim>\<open>#000000\<close>, the surface receives the
  strokes between these points in this order and a joint disc at each of them.
\<close>

theorem straight_line_example_heights:
  "map (\<lambda>p. snd p / of_int SCALE_FACTOR) (points (figure_paths_simple 100 50 50 20 20 20 15))
     = [0, 100, 150, 150, 200, 200, 220, 500]
   \<and> map (\<lambda>p. fst p / of_int SCALE_FACTOR) (points (figure_paths_simple 100 50 50 20 20 20 15))
     = [150, 150, 200, 150, 150, 130, 150, 150]
   \<and> snd (last (points (figure_paths_simple 100 50 50 20 20 20 15)))
     = of_int (CANVAS_HEIGHT * SCALE_FACTOR)
   \<and> (\<exists>img. supersampled_simple 100 50 50 20 20 20 15 3 ''#000000'' = Inr img
        \<and> draw_log (im_pixels img) =
            path_segments
              [(1500, 0), (1500, 1000), (2000, 1500), (1500, 1500),
               (1500, 2000), (1300, 2000), (1500, 2200), (1500, 5000)]
              30 (ColorName ''#000000'')
            @ path_segments [(1300, 1000), (1100, 1000), (1300, 1150)]
                30 (ColorName ''#000000'')
            @ path_joints
                [(1500, 0), (1500, 1000), (2000, 1500), (1500, 1500),
                 (1500, 2000), (1300, 2000), (1500, 2200), (1500, 5000)]
                30 (ColorName ''#000000'')
            @ path_joints [(1300, 1000), (1100, 1000), (1300, 1150)]
                30 (ColorName ''#000000''))"
proof -
  have ys: "map (\<lambda>p. snd p / of_int SCALE_FACTOR)
              (points (figure_paths_simple 100 50 50 20 20 20 15))
            = [0, 100, 150, 150, 200, 200, 220, 500]"
    by (simp add: example_points SCALE_FACTOR_def)
  have xs: "map (\<lambda>p. fst p / of_int SCALE_FACTOR)
              (points (figure_paths_simple 100 50 50 20 20 20 15))
            = [150, 150, 200, 150, 150, 130, 150, 150]"
    by (simp add: example_points SCALE_FACTOR_def)
  have bottom: "snd (last (points (figure_paths_simple 100 50 50 20 20 20 15)))
                = of_int (CANVAS_HEIGHT * SCALE_FACTOR)"
    by (simp add: example_points SCALE_FACTOR_def CANVAS_HEIGHT_def)
  have w: "3 * real_of_int SCALE_FACTOR = 30"
    by (simp add: SCALE_FACTOR_def)
  have "draw_log (im_pixels (drawn_all
            (Image_new RGBA (CANVAS_WIDTH * SCALE_FACTOR, CANVAS_HEIGHT * SCALE_FACTOR)
               (ColorTuple 255 255 255 255))
            (figure_ops (figure_paths_simple 100 50 50 20 20 20 15)
               (3 * of_int SCALE_FACTOR) (ColorName ''#000000''))))
        = figure_ops (figure_paths_simple 100 50 50 20 20 20 15)
               (3 * of_int SCALE_FACTOR) (ColorName ''#000000'')"
    by (simp only: canvas_pixels draw_log_foldl draw_log.simps append_Nil)
  then have log: "draw_log (im_pixels (drawn_all
            (Image_new RGBA (CANVAS_WIDTH * SCALE_FACTOR, CANVAS_HEIGHT * SCALE_FACTOR)
               (ColorTuple 255 255 255 255))
            (figure_ops (figure_paths_simple 100 50 50 20 20 20 15)
               (3 * of_int SCALE_FACTOR) (ColorName ''#000000''))))
        = path_segments
              [(1500, 0), (1500, 1000), (2000, 1500), (1500, 1500),
               (1500, 2000), (1300, 2000), (1500, 2200), (1500, 5000)]
              30 (ColorName ''#000000'')
            @ path_segments [(1300, 1000), (1100, 1000), (1300, 1150)]
                30 (ColorName ''#000000'')
            @ path_joints
                [(1500, 0), (1500, 1000), (2000, 1500), (1500, 1500),
                 (1500, 2000), (1300, 2000), (1500, 2200), (1500, 5000)]
                30 (ColorName ''#000000'')
            @ path_joints [(1300, 1000), (1100, 1000), (1300, 1150)]
                30 (ColorName ''#000000'')"
    unfolding figure_ops_additional [OF figure_paths_simple_additional]
      example_points example_additional_points w .
  from ys xs bottom log show ?thesis
    unfolding supersampled_simple_eq by blast
qed

text \<open>
  C10. In both builders the points of the main path do not depend on the parameters of
  the auxiliary strokes: two inputs that differ only in e, f and h (angle-based builder)
  or only in e, f and g (straight-line builder) give the same list of main-path points,
  all eight of them. The auxiliary path has three points.
\<close>

theorem main_path_independent_of_auxiliary_parameters:
  "(\<exists>fp fp'. figure_paths a b g c y d e f h = Inr fp
       \<and> figure_paths a b g c y d e' f' h' = Inr fp'
       \<and> points fp = points fp'
       \<and> length (points fp) = 8
       \<and> length (additional_points fp) = 3)
   \<and> points (figure_paths_simple a2 b2 c2 d2 e2 f2 g2)
       = points (figure_paths_simple a2 b2 c2 d2 e2' f2' g2')
   \<and> length (points (figure_paths_simple a2 b2 c2 d2 e2 f2 g2)) = 8
   \<and> length (additional_points (figure_paths_simple a2 b2 c2 d2 e2 f2 g2)) = 3"
proof -
  have angle: "\<exists>fp fp'. figure_paths a b g c y d e f h = Inr fp
       \<and> figure_paths a b g c y d e' f' h' = Inr fp'
       \<and> points fp = points fp'
       \<and> length (points fp) = 8
       \<and> length (additional_points fp) = 3"
    by (simp add: figure_paths_points)
  have straight: "points (figure_paths_simple a2 b2 c2 d2 e2 f2 g2)
       = points (figure_paths_simple a2 b2 c2 d2 e2' f2' g2')"
    by (simp add: figure_paths_simple_points)
  have counts: "length (points (figure_paths_simple a2 b2 c2 d2 e2 f2 g2)) = 8"
    "length (additional_points (figure_paths_simple a2 b2 c2 d2 e2 f2 g2)) = 3"
    by (simp_all add: figure_paths_simple_points)
  from angle straight counts show ?thesis
    by blast
qed

end
